theory Spec2Isabelle
  imports Main "HOL-Library.List_Lexorder" "HOL-Library.Char_ord" "HOL-Library.Product_Lexorder"
begin

section \<open>Strings\<close>

text \<open>
  Python strings are modelled as \<^typ>\<open>string\<close>: a character is a code point below 256.
  \<open>str.strip\<close> removes the whitespace characters at both ends; below 256 these are the
  codes 9 to 13, 28 to 32, 133 and 160. \<open>str.upper\<close> maps \<open>a\<close>..\<open>z\<close> to \<open>A\<close>..\<open>Z\<close>, the code 223
  (sharp s) to \<open>SS\<close>, and the codes 224 to 254 other than 247 to the code 32 below. The
  upper-case forms of the codes 181 and 255 are the code points 924 and 376, which a
  character of this type cannot hold: the model leaves these two characters as they
  are, and like their upper-case forms they differ from every ASCII character.
\<close>

definition isspace :: "char \<Rightarrow> bool" where
  "isspace c = (c \<in> set [CHR 0x09, CHR 0x0A, CHR 0x0B, CHR 0x0C, CHR 0x0D,
                            CHR 0x1C, CHR 0x1D, CHR 0x1E, CHR 0x1F, CHR '' '',
                            CHR 0x85, CHR 0xA0])"

definition strip :: "string \<Rightarrow> string" where
  "strip s = rev (dropWhile isspace (rev (dropWhile isspace s)))"

definition upper_char :: "char \<Rightarrow> string" where
  "upper_char c = (let n = (of_char c :: nat) in
     if 97 \<le> n \<and> n \<le> 122 then [char_of (n - 32)]
     else if n = 223 then ''SS''
     else if 224 \<le> n \<and> n \<le> 254 \<and> n \<noteq> 247 then [char_of (n - 32)]
     else [c])"

definition upper :: "string \<Rightarrow> string" where
  "upper s = concat (map upper_char s)"

definition startswith :: "string \<Rightarrow> string \<Rightarrow> bool" where
  "startswith s p = (take (length p) s = p)"

text \<open>\<open>str(n)\<close> and the f-string rendering of an integer.\<close>

definition digit_char :: "nat \<Rightarrow> char" where
  "digit_char n = char_of (48 + n)"

fun str_nat :: "nat \<Rightarrow> string" where
  "str_nat n = (if n < 10 then [digit_char n] else str_nat (n div 10) @ [digit_char (n mod 10)])"

definition str_int :: "int \<Rightarrow> string" where
  "str_int i = (if i < 0 then CHR ''-'' # str_nat (nat (- i)) else str_nat (nat i))"

text \<open>\<open>s.replace(old, '')\<close> for a non-empty \<open>old\<close>: every occurrence, left to right.\<close>

function str_remove :: "string \<Rightarrow> string \<Rightarrow> string" where
  "str_remove old s =
     (if s = [] \<or> old = [] then s
      else if startswith s old then str_remove old (drop (length old) s)
      else hd s # str_remove old (tl s))"
  by pat_completeness auto
termination
  by (relation "measure (\<lambda>(old, s). length s)") auto

declare str_remove.simps [simp del]

text \<open>\<open>path.split('/')[-1]\<close>: what follows the last slash.\<close>

definition last_segment :: "string \<Rightarrow> string" where
  "last_segment path = rev (takeWhile (\<lambda>c. c \<noteq> CHR ''/'') (rev path))"

datatype py_error = ValueError | KeyError | IndexError


section \<open>Dates and \<open>datetime.strptime\<close>\<close>

datatype date = Date (year_of: nat) (month_of: nat) (day_of: nat)

definition is_leap :: "nat \<Rightarrow> bool" where
  "is_leap y = (y mod 4 = 0 \<and> (y mod 100 \<noteq> 0 \<or> y mod 400 = 0))"

definition days_in_month :: "nat \<Rightarrow> nat \<Rightarrow> nat" where
  "days_in_month y m =
     (if m = 2 then (if is_leap y then 29 else 28)
      else if m = 4 \<or> m = 6 \<or> m = 9 \<or> m = 11 then 30 else 31)"

text \<open>
  The constructor of \<open>datetime.date\<close>: the year lies in \<open>1..9999\<close>, the month in \<open>1..12\<close>
  and the day within the month; anything else raises \<open>ValueError\<close> (here \<open>None\<close>).
\<close>

definition make_date :: "nat \<Rightarrow> nat \<Rightarrow> nat \<Rightarrow> date option" where
  "make_date y m d =
     (if 1 \<le> y \<and> y \<le> 9999 \<and> 1 \<le> m \<and> m \<le> 12 \<and> 1 \<le> d \<and> d \<le> days_in_month y m
      then Some (Date y m d) else None)"

text \<open>
  The character classes and the groups of the regular expression that \<open>strptime\<close> builds
  from a format: \<open>%d\<close> is \<open>3[0-1]|[1-2]\d|0[1-9]|[1-9]| [1-9]\<close>, \<open>%m\<close> is
  \<open>1[0-2]|0[1-9]|[1-9]\<close> and \<open>%Y\<close> is \<open>\d\d\d\d\<close>. Each function below matches a whole
  field and returns its number.
\<close>

definition cls :: "char \<Rightarrow> char \<Rightarrow> char \<Rightarrow> bool" where
  "cls lo hi c = ((of_char lo :: nat) \<le> of_char c \<and> (of_char c :: nat) \<le> of_char hi)"

definition digit_val :: "char \<Rightarrow> nat" where
  "digit_val c = of_char c - 48"

fun re_d :: "string \<Rightarrow> nat option" where
  "re_d [a, b] =
     (if a = CHR ''3'' \<and> cls CHR ''0'' CHR ''1'' b then Some (30 + digit_val b)
      else if cls CHR ''1'' CHR ''2'' a \<and> cls CHR ''0'' CHR ''9'' b
        then Some (10 * digit_val a + digit_val b)
      else if a = CHR ''0'' \<and> cls CHR ''1'' CHR ''9'' b then Some (digit_val b)
      else if a = CHR '' '' \<and> cls CHR ''1'' CHR ''9'' b then Some (digit_val b)
      else None)"
| "re_d [a] = (if cls CHR ''1'' CHR ''9'' a then Some (digit_val a) else None)"
| "re_d _ = None"

fun re_m :: "string \<Rightarrow> nat option" where
  "re_m [a, b] =
     (if a = CHR ''1'' \<and> cls CHR ''0'' CHR ''2'' b then Some (10 + digit_val b)
      else if a = CHR ''0'' \<and> cls CHR ''1'' CHR ''9'' b then Some (digit_val b)
      else None)"
| "re_m [a] = (if cls CHR ''1'' CHR ''9'' a then Some (digit_val a) else None)"
| "re_m _ = None"

fun re_Y :: "string \<Rightarrow> nat option" where
  "re_Y [a, b, c, d] =
     (if cls CHR ''0'' CHR ''9'' a \<and> cls CHR ''0'' CHR ''9'' b
         \<and> cls CHR ''0'' CHR ''9'' c \<and> cls CHR ''0'' CHR ''9'' d
      then Some (1000 * digit_val a + 100 * digit_val b + 10 * digit_val c + digit_val d)
      else None)"
| "re_Y _ = None"

definition split_at :: "char \<Rightarrow> string \<Rightarrow> (string \<times> string) option" where
  "split_at sep s =
     (if sep \<in> set s
      then Some (takeWhile (\<lambda>c. c \<noteq> sep) s, tl (dropWhile (\<lambda>c. c \<noteq> sep) s))
      else None)"

text \<open>
  \<open>datetime.strptime(s, "%d/%m/%Y")\<close>: the three fields separated by slashes, the whole
  text consumed, and the date a date of the calendar. \<open>None\<close> is the \<open>ValueError\<close>.
\<close>

definition strptime_dmy :: "string \<Rightarrow> date option" where
  "strptime_dmy s =
     (case split_at CHR ''/'' s of
        None \<Rightarrow> None
      | Some (ds, r) \<Rightarrow>
          (case split_at CHR ''/'' r of
             None \<Rightarrow> None
           | Some (ms, ys) \<Rightarrow>
               (case re_d ds of
                  None \<Rightarrow> None
                | Some d \<Rightarrow>
                    (case re_m ms of
                       None \<Rightarrow> None
                     | Some m \<Rightarrow>
                         (case re_Y ys of
                            None \<Rightarrow> None
                          | Some y \<Rightarrow> make_date y m d)))))"

text \<open>\<open>datetime.strptime(s, "%Y-%m-%d")\<close>, as the server reads the stored dates back.\<close>

definition strptime_ymd :: "string \<Rightarrow> date option" where
  "strptime_ymd s =
     (case split_at CHR ''-'' s of
        None \<Rightarrow> None
      | Some (ys, r) \<Rightarrow>
          (case split_at CHR ''-'' r of
             None \<Rightarrow> None
           | Some (ms, ds) \<Rightarrow>
               (case re_Y ys of
                  None \<Rightarrow> None
                | Some y \<Rightarrow>
                    (case re_m ms of
                       None \<Rightarrow> None
                     | Some m \<Rightarrow>
                         (case re_d ds of
                            None \<Rightarrow> None
                          | Some d \<Rightarrow> make_date y m d)))))"

text \<open>\<open>date.isoformat()\<close>: \<open>"%04d-%02d-%02d"\<close>.\<close>

definition pad2 :: "nat \<Rightarrow> string" where
  "pad2 n = [digit_char (n div 10 mod 10), digit_char (n mod 10)]"

definition pad4 :: "nat \<Rightarrow> string" where
  "pad4 n = [digit_char (n div 1000 mod 10), digit_char (n div 100 mod 10),
             digit_char (n div 10 mod 10), digit_char (n mod 10)]"

definition isoformat :: "date \<Rightarrow> string" where
  "isoformat dt = pad4 (year_of dt) @ ''-'' @ pad2 (month_of dt) @ ''-'' @ pad2 (day_of dt)"


section \<open>Module groups\<close>

text \<open>The keys of \<open>module_groups\<close> (and of \<open>module_files\<close>), in the order the dict lists them.\<close>

definition module_groups :: "string list" where
  "module_groups = [''CM1'', ''CM2'', ''CS1'', ''CS2'', ''CB'', ''CP1'', ''CP2'', ''CP3'', ''SP'', ''SA'']"

text \<open>
  The loop \<open>for group_key in module_groups: if module.strip().upper().startswith(group_key):
  ...; break\<close>, with \<open>None\<close> when it ends without a match.
\<close>

fun find_group_loop :: "string list \<Rightarrow> string \<Rightarrow> string option" where
  "find_group_loop [] module = None"
| "find_group_loop (group_key # rest) module =
     (if startswith (upper (strip module)) group_key then Some group_key
      else find_group_loop rest module)"

definition find_group :: "string \<Rightarrow> string option" where
  "find_group module = find_group_loop module_groups module"


section \<open>The deadline store\<close>

text \<open>
  The table \<open>deadlines\<close>. \<open>row_id\<close> is the column \<open>id INTEGER PRIMARY KEY AUTOINCREMENT\<close>;
  the columns \<open>created_at\<close> and \<open>updated_at\<close> hold the wall-clock time of the insert and are
  left out. The rows are kept in the order of their ids. \<open>sqlite_sequence\<close> is the
  largest id the table has ever given out, which SQLite keeps for an \<open>AUTOINCREMENT\<close>
  column and which \<open>DELETE FROM deadlines\<close> does not reset.
\<close>

record deadline_row =
  row_id :: nat
  module_code :: string
  module_group :: string
  assignment_code :: string
  title :: "string option"
  recommend_date :: "string option"
  deadline_date :: string
  academic_year :: string
  is_active :: bool

record database =
  deadlines :: "deadline_row list"
  sqlite_sequence :: nat

definition init_database :: database where
  "init_database = \<lparr>deadlines = [], sqlite_sequence = 0\<rparr>"

text \<open>The six values bound to the \<open>INSERT OR REPLACE\<close> statement.\<close>

record insert_values =
  v_module_code :: string
  v_module_group :: string
  v_assignment_code :: string
  v_title :: "string option"
  v_recommend_date :: "string option"
  v_deadline_date :: string

text \<open>The columns of \<open>UNIQUE(module_code, assignment_code, academic_year)\<close>.\<close>

definition natural_key :: "deadline_row \<Rightarrow> string \<times> string \<times> string" where
  "natural_key r = (module_code r, assignment_code r, academic_year r)"

text \<open>
  \<open>INSERT OR REPLACE\<close>: the rows that conflict on the unique key are deleted, then the
  new row is inserted with a fresh id and the defaults \<open>academic_year = '2026'\<close>,
  \<open>is_active = 1\<close>.
\<close>

definition next_id :: "database \<Rightarrow> nat" where
  "next_id db = fold max (map row_id (deadlines db)) (sqlite_sequence db) + 1"

definition new_row :: "nat \<Rightarrow> insert_values \<Rightarrow> deadline_row" where
  "new_row i v =
     \<lparr>row_id = i, module_code = v_module_code v, module_group = v_module_group v,
      assignment_code = v_assignment_code v, title = v_title v,
      recommend_date = v_recommend_date v, deadline_date = v_deadline_date v,
      academic_year = ''2026'', is_active = True\<rparr>"

definition insert_or_replace :: "database \<Rightarrow> insert_values \<Rightarrow> database" where
  "insert_or_replace db v =
     (let r = new_row (next_id db) v
      in \<lparr>deadlines = filter (\<lambda>x. natural_key x \<noteq> natural_key r) (deadlines db) @ [r],
          sqlite_sequence = row_id r\<rparr>)"


section \<open>TSV ingestion\<close>

text \<open>
  The input is the list of rows \<open>csv.reader(f, delimiter='\t')\<close> yields, each a list of
  fields. \<open>parse_row\<close> is the body of the loop of \<open>import_from_tsv\<close> up to the insert:
  \<open>None\<close> is a \<open>continue\<close>, \<open>Some v\<close> the values it inserts.
\<close>

definition parse_row :: "string list \<Rightarrow> insert_values option" where
  "parse_row row =
     (if length row < 4 then None
      else
        let module = row ! 0; code = row ! 1;
            recommend_date_str = row ! 2; deadline_date_str = row ! 3
        in (case find_group module of
              None \<Rightarrow> None
            | Some mgroup \<Rightarrow>
                (case strptime_dmy (strip deadline_date_str) of
                   None \<Rightarrow> None
                 | Some deadline \<Rightarrow>
                     if strip recommend_date_str \<noteq> []
                     then (case strptime_dmy (strip recommend_date_str) of
                             None \<Rightarrow> None
                           | Some recommend \<Rightarrow>
                               Some \<lparr>v_module_code = strip module, v_module_group = mgroup,
                                     v_assignment_code = strip code,
                                     v_title = Some (strip module @ '' '' @ strip code),
                                     v_recommend_date = Some (isoformat recommend),
                                     v_deadline_date = isoformat deadline\<rparr>)
                     else Some \<lparr>v_module_code = strip module, v_module_group = mgroup,
                                v_assignment_code = strip code,
                                v_title = Some (strip module @ '' '' @ strip code),
                                v_recommend_date = None,
                                v_deadline_date = isoformat deadline\<rparr>)))"

definition import_row :: "database \<Rightarrow> string list \<Rightarrow> database" where
  "import_row db row =
     (case parse_row row of None \<Rightarrow> db | Some v \<Rightarrow> insert_or_replace db v)"

fun import_rows :: "database \<Rightarrow> string list list \<Rightarrow> database" where
  "import_rows db [] = db"
| "import_rows db (row # rest) = import_rows (import_row db row) rest"

text \<open>\<open>import_from_tsv\<close>: \<open>DELETE FROM deadlines\<close>, then the loop over the rows.\<close>

definition import_from_tsv :: "database \<Rightarrow> string list list \<Rightarrow> database" where
  "import_from_tsv db tsv = import_rows (db\<lparr>deadlines := []\<rparr>) tsv"


section \<open>Calendars\<close>

text \<open>
  The calendar and event objects of the \<open>ics\<close> library, as far as the program sets them.
  An event the program gives no uid has \<open>ev_uid = None\<close> (the library
  generates one). The events are listed in the order they were added. The text the
  library serialises a calendar to is not modelled: a file or a response body holds the
  calendar itself.
\<close>

record event =
  ev_name :: string
  ev_begin :: date
  ev_end :: date
  ev_description :: "string option"
  ev_categories :: "string list"
  ev_uid :: "string option"

record calendar =
  creator :: "string option"
  extra :: "(string \<times> string) list"
  events :: "event list"


section \<open>The static generator\<close>

definition parse_date :: "string \<Rightarrow> date option" where
  "parse_date date_str = strptime_dmy (strip date_str)"

definition module_files :: "int \<Rightarrow> string \<Rightarrow> (string \<times> string) list" where
  "module_files yr mon =
     [(''CM1'', ''CM1 Assignment Deadlines '' @ mon @ '' '' @ str_int yr @ ''.ics''),
      (''CM2'', ''CM2 Assignment Deadlines '' @ mon @ '' '' @ str_int yr @ ''.ics''),
      (''CS1'', ''CS1 Assignment Deadlines '' @ mon @ '' '' @ str_int yr @ ''.ics''),
      (''CS2'', ''CS2 Assignment Deadlines '' @ mon @ '' '' @ str_int yr @ ''.ics''),
      (''CB'', ''CB Assignment Deadlines '' @ mon @ '' '' @ str_int yr @ ''.ics''),
      (''CP1'', ''CP1 Assignment Deadlines '' @ mon @ '' '' @ str_int yr @ ''.ics''),
      (''CP2'', ''CP2 Assignment Deadlines '' @ mon @ '' '' @ str_int yr @ ''.ics''),
      (''CP3'', ''CP3 Assignment Deadlines '' @ mon @ '' '' @ str_int yr @ ''.ics''),
      (''SP'', ''SP Assignment Deadlines '' @ mon @ '' '' @ str_int yr @ ''.ics''),
      (''SA'', ''SA Assignment Deadlines '' @ mon @ '' '' @ str_int yr @ ''.ics'')]"

definition module_names :: "(string \<times> string) list" where
  "module_names =
     [(''CM1'', ''CM1 Assignment Deadlines''), (''CM2'', ''CM2 Assignment Deadlines''),
      (''CS1'', ''CS1 Assignment Deadlines''), (''CS2'', ''CS2 Assignment Deadlines''),
      (''CB'', ''CB Assignment Deadlines''), (''CP1'', ''CP1 Assignment Deadlines''),
      (''CP2'', ''CP2 Assignment Deadlines''), (''CP3'', ''CP3 Assignment Deadlines''),
      (''SP'', ''SP Assignment Deadlines''), (''SA'', ''SA Assignment Deadlines'')]"

text \<open>The empty calendar of one group, with its three name lines.\<close>

definition new_calendar :: "int \<Rightarrow> string \<Rightarrow> string \<Rightarrow> calendar" where
  "new_calendar yr mon nm =
     \<lparr>creator = None,
      extra = [(''X-WR-CALNAME'', nm),
               (''X-WR-CALDESC'', ''ActEd '' @ nm @ '' - '' @ mon @ '' '' @ str_int yr),
               (''NAME'', nm)],
      events = []\<rparr>"

text \<open>
  \<open>calendars\<close>, the dict from group to calendar, as an association list in the order of
  the keys of \<open>module_files\<close>. \<open>module_names[key]\<close> raises \<open>KeyError\<close> on a missing key.
\<close>

fun init_calendars :: "int \<Rightarrow> string \<Rightarrow> string list \<Rightarrow> py_error + (string \<times> calendar) list" where
  "init_calendars yr mon [] = Inr []"
| "init_calendars yr mon (key # keys) =
     (case map_of module_names key of
        None \<Rightarrow> Inl KeyError
      | Some nm \<Rightarrow>
          (case init_calendars yr mon keys of
             Inl e \<Rightarrow> Inl e
           | Inr cals \<Rightarrow> Inr ((key, new_calendar yr mon nm) # cals)))"

definition add_event :: "(string \<times> calendar) list \<Rightarrow> string \<Rightarrow> event \<Rightarrow> (string \<times> calendar) list" where
  "add_event cals mod_key e =
     map (\<lambda>(k, cal). if k = mod_key then (k, cal\<lparr>events := events cal @ [e]\<rparr>) else (k, cal)) cals"

text \<open>The body of the loop over the rows of the TSV in \<open>generate_static_files\<close>.\<close>

definition static_row :: "string list \<Rightarrow> (string \<times> calendar) list \<Rightarrow> string list \<Rightarrow> (string \<times> calendar) list" where
  "static_row keys cals row =
     (if length row < 4 then cals
      else
        let module = row ! 0; code = row ! 1; deadline_date_str = row ! 3
        in (case parse_date deadline_date_str of
              None \<Rightarrow> cals
            | Some start \<Rightarrow>
                (case find_group_loop keys module of
                   None \<Rightarrow> cals
                 | Some mod_key \<Rightarrow>
                     add_event cals mod_key
                       \<lparr>ev_name = module @ '' '' @ code @ '' deadline'',
                        ev_begin = start, ev_end = start,
                        ev_description = None, ev_categories = [], ev_uid = None\<rparr>)))"

fun static_rows :: "string list \<Rightarrow> (string \<times> calendar) list \<Rightarrow> string list list \<Rightarrow> (string \<times> calendar) list" where
  "static_rows keys cals [] = cals"
| "static_rows keys cals (row # rest) = static_rows keys (static_row keys cals row) rest"

text \<open>What a run leaves behind: the files written, in order, and the lines printed.\<close>

record run_output =
  files :: "(string \<times> calendar) list"
  printed :: "string list"

text \<open>The loop \<open>for mod_key, cal in calendars.items()\<close> that writes the files.\<close>

fun write_calendars :: "(string \<times> string) list \<Rightarrow> (string \<times> calendar) list \<Rightarrow> run_output \<Rightarrow> py_error + run_output" where
  "write_calendars mfiles [] out = Inr out"
| "write_calendars mfiles ((mod_key, cal) # rest) out =
     (if events cal \<noteq> []
      then (case map_of mfiles mod_key of
              None \<Rightarrow> Inl KeyError
            | Some fname \<Rightarrow>
                write_calendars mfiles rest
                  \<lparr>files = files out @ [(fname, cal)],
                   printed = printed out @ [''ICS file written to '' @ fname]\<rparr>)
      else write_calendars mfiles rest out)"

definition generate_static_files :: "string list list \<Rightarrow> int \<Rightarrow> string \<Rightarrow> py_error + run_output" where
  "generate_static_files tsv yr mon =
     (let mfiles = module_files yr mon; keys = map fst mfiles
      in (case init_calendars yr mon keys of
            Inl e \<Rightarrow> Inl e
          | Inr cals \<Rightarrow>
              write_calendars mfiles (static_rows keys cals tsv) \<lparr>files = [], printed = []\<rparr>))"


section \<open>The calendar server\<close>

text \<open>
  \<open>get_deadlines_by_group\<close>: the two \<open>SELECT\<close> statements. A group that is \<open>None\<close> or the
  empty string takes the second one (\<open>if module_group:\<close>). \<open>ORDER BY\<close> compares the text
  columns bytewise; rows with equal sort keys are left in the order of the table.
\<close>

type_synonym deadline_tuple = "string \<times> string \<times> string option \<times> string \<times> string option"

definition select_columns :: "deadline_row \<Rightarrow> deadline_tuple" where
  "select_columns r = (module_code r, assignment_code r, title r, deadline_date r, recommend_date r)"

definition select_all_groups :: "database \<Rightarrow> deadline_tuple list" where
  "select_all_groups db =
     map select_columns
       (sort_key (\<lambda>r. (module_group r, deadline_date r, module_code r))
          (filter (\<lambda>r. is_active r) (deadlines db)))"

definition select_group :: "database \<Rightarrow> string \<Rightarrow> deadline_tuple list" where
  "select_group db g =
     map select_columns
       (sort_key (\<lambda>r. (deadline_date r, module_code r))
          (filter (\<lambda>r. module_group r = g \<and> is_active r) (deadlines db)))"

definition get_deadlines_by_group :: "database \<Rightarrow> string option \<Rightarrow> deadline_tuple list" where
  "get_deadlines_by_group db mgroup =
     (case mgroup of
        None \<Rightarrow> select_all_groups db
      | Some g \<Rightarrow> if g \<noteq> [] then select_group db (upper g) else select_all_groups db)"

text \<open>
  \<open>generate_calendar\<close>: one event per selected row; a stored date that
  \<open>strptime(..., "%Y-%m-%d")\<close> rejects raises \<open>ValueError\<close> and ends the request.
\<close>

definition deadline_event :: "string option \<Rightarrow> deadline_tuple \<Rightarrow> py_error + event" where
  "deadline_event mgroup t =
     (case t of (mcode, acode, ttl, deadline_date_str, recommend_date_str) \<Rightarrow>
        (case strptime_ymd deadline_date_str of
           None \<Rightarrow> Inl ValueError
         | Some dl \<Rightarrow>
             Inr \<lparr>ev_name = mcode @ '' '' @ acode @ '' deadline'',
                  ev_begin = dl, ev_end = dl,
                  ev_description = Some (''Assignment deadline for '' @ mcode @ '' '' @ acode),
                  ev_categories =
                    (case mgroup of
                       None \<Rightarrow> [''Assignment'']
                     | Some g \<Rightarrow> if g \<noteq> [] then [g] else [''Assignment'']),
                  ev_uid = Some (mcode @ ''-'' @ acode @ ''-'' @ deadline_date_str
                                 @ ''@deadlines-calendar'')\<rparr>))"

fun deadline_events :: "string option \<Rightarrow> deadline_tuple list \<Rightarrow> py_error + event list" where
  "deadline_events mgroup [] = Inr []"
| "deadline_events mgroup (t # ts) =
     (case deadline_event mgroup t of
        Inl e \<Rightarrow> Inl e
      | Inr ev \<Rightarrow>
          (case deadline_events mgroup ts of
             Inl e \<Rightarrow> Inl e
           | Inr evs \<Rightarrow> Inr (ev # evs)))"

definition generate_calendar :: "database \<Rightarrow> string option \<Rightarrow> string \<Rightarrow> py_error + calendar" where
  "generate_calendar db mgroup calendar_name =
     (case deadline_events mgroup (get_deadlines_by_group db mgroup) of
        Inl e \<Rightarrow> Inl e
      | Inr evs \<Rightarrow>
          Inr \<lparr>creator = Some calendar_name,
               extra = [(''X-WR-CALNAME'', calendar_name),
                        (''X-WR-CALDESC'', ''ActEd '' @ calendar_name),
                        (''NAME'', calendar_name)],
               events = evs\<rparr>)"

datatype json = JNull | JString string | JArray "json list" | JObject "(string \<times> json) list"

datatype body = IcsBody calendar | JsonBody json

record response =
  status :: nat
  headers :: "(string \<times> string) list"
  body :: body

text \<open>\<open>serve_calendar\<close>: the group is read off the last segment of the path.\<close>

definition serve_calendar :: "database \<Rightarrow> string \<Rightarrow> py_error + response" where
  "serve_calendar db path =
     (let filename = last_segment path;
          mgroup = (if filename = ''all.ics'' then None
                    else Some (upper (str_remove ''.ics'' filename)));
          calendar_name =
            (case mgroup of
               None \<Rightarrow> ''All Assignment Deadlines April 2026''
             | Some g \<Rightarrow> g @ '' Marking Deadlines April 2026'')
      in (case generate_calendar db mgroup calendar_name of
            Inl e \<Rightarrow> Inl e
          | Inr cal \<Rightarrow>
              Inr \<lparr>status = 200,
                   headers = [(''Content-Type'', ''text/calendar; charset=utf-8''),
                              (''Content-Disposition'',
                               ''attachment; filename='' @ [CHR 0x22] @ filename @ [CHR 0x22]),
                              (''Cache-Control'', ''no-cache, must-revalidate''),
                              (''Expires'', ''Thu, 01 Jan 1970 00:00:00 GMT'')],
                   body = IcsBody cal\<rparr>))"

text \<open>
  \<open>serve_deadlines\<close>: \<open>query_params\<close> is the dict \<open>parse_qs\<close> returns, from a parameter to
  the list of its values; the body is the value handed to \<open>json.dumps\<close>, where Python's
  \<open>None\<close> is \<open>null\<close>.
\<close>

definition json_opt :: "string option \<Rightarrow> json" where
  "json_opt v = (case v of None \<Rightarrow> JNull | Some s \<Rightarrow> JString s)"

definition format_deadline :: "deadline_tuple \<Rightarrow> json" where
  "format_deadline t =
     (case t of (mcode, acode, ttl, dl, recommend) \<Rightarrow>
        JObject [(''module_code'', JString mcode),
                 (''assignment_code'', JString acode),
                 (''title'', json_opt ttl),
                 (''deadline_date'', JString dl),
                 (''recommend_date'', json_opt recommend)])"

definition serve_deadlines :: "database \<Rightarrow> (string \<rightharpoonup> string list) \<Rightarrow> py_error + response" where
  "serve_deadlines db query_params =
     (case (case query_params ''group'' of
              None \<Rightarrow> Inr None
            | Some [] \<Rightarrow> Inl IndexError
            | Some (v # _) \<Rightarrow> Inr (Some v)) of
        Inl e \<Rightarrow> Inl e
      | Inr requested \<Rightarrow>
          (let mgroup = (if requested = Some ''ALL'' then None else requested);
               found = get_deadlines_by_group db mgroup
           in Inr \<lparr>status = 200,
                   headers = [(''Content-Type'', ''application/json''),
                              (''Access-Control-Allow-Origin'', ''*'')],
                   body = JsonBody (JObject [(''deadlines'', JArray (map format_deadline found))])\<rparr>))"

text \<open>The handler \<open>do_GET\<close> picks for a path.\<close>

datatype route = ServeIndex | ServeCalendar | ServeGroups | ServeDeadlines | Favicon | NotFound

definition do_GET :: "string \<Rightarrow> route" where
  "do_GET path =
     (if path = ''/'' then ServeIndex
      else if startswith path ''/calendar/'' then ServeCalendar
      else if path = ''/api/groups'' then ServeGroups
      else if path = ''/api/deadlines'' then ServeDeadlines
      else if path = ''/favicon.ico'' then Favicon
      else NotFound)"


section \<open>The command line of the conversion tool\<close>

text \<open>
  \<open>main\<close> of \<open>deadlines_to_ics\<close>, over the parsed arguments. What it prints and which of
  \<open>start_server\<close>, \<open>import_to_database\<close> and \<open>generate_static_files\<close> it calls is recorded
  in order; the second component is the exit status (\<open>sys.exit(1)\<close>, or 0 on return).
  \<open>path_exists\<close> is \<open>os.path.exists\<close>.
\<close>

record args =
  input_path :: "string option"
  year :: "int option"
  month :: "string option"
  to_database :: bool
  start_server :: bool

datatype action =
    PrintDoc
  | Print string
  | StartServer
  | ImportToDatabase string
  | GenerateStaticFiles string int string

definition valid_months :: "string list" where
  "valid_months = [''January'', ''February'', ''March'', ''April'', ''May'', ''June'',
                   ''July'', ''August'', ''September'', ''October'', ''November'', ''December'']"

fun join :: "string \<Rightarrow> string list \<Rightarrow> string" where
  "join sep [] = []"
| "join sep [x] = x"
| "join sep (x # y # ys) = x @ sep @ join sep (y # ys)"

definition main :: "(string \<Rightarrow> bool) \<Rightarrow> args \<Rightarrow> action list \<times> nat" where
  "main path_exists a =
     (if start_server a then ([StartServer], 0)
      else
        (case input_path a of
           None \<Rightarrow> ([PrintDoc], 1)
         | Some p \<Rightarrow>
             if p = [] then ([PrintDoc], 1)
             else if \<not> path_exists p then ([Print (''Error: File '' @ p @ '' not found'')], 1)
             else if to_database a then
               ([ImportToDatabase p]
                  @ (if start_server a
                     then [Print (CHR 0x0A # ''Starting calendar server...''), StartServer]
                     else []), 0)
             else
               (let yr = (case year a of None \<Rightarrow> 2026 | Some y \<Rightarrow> if y \<noteq> 0 then y else 2026);
                    mon = (case month a of
                             None \<Rightarrow> ''September''
                           | Some m \<Rightarrow> if m \<noteq> [] then m else ''September'')
                in if yr < 1900 \<or> yr > 3000
                   then ([Print ''Error: Year must be between 1900 and 3000''], 1)
                   else if mon \<notin> set valid_months
                   then ([Print (''Error: Month must be one of: '' @ join '', '' valid_months)], 1)
                   else ([GenerateStaticFiles p yr mon], 0))))"


section \<open>Properties of rows and stores\<close>



text \<open>The unique key a set of inserted values gets: the year is the default \<open>'2026'\<close>.\<close>

definition values_key :: "insert_values \<Rightarrow> string \<times> string \<times> string" where
  "values_key v = (v_module_code v, v_assignment_code v, ''2026'')"




text \<open>A text that \<open>isoformat\<close> produces from a date of the calendar.\<close>

definition iso_date :: "string \<Rightarrow> bool" where
  "iso_date s = (\<exists>y m d dt. make_date y m d = Some dt \<and> s = isoformat dt)"

text \<open>What ingestion stores in a row.\<close>

definition well_formed_row :: "deadline_row \<Rightarrow> bool" where
  "well_formed_row r =
     (is_active r \<and> module_group r \<in> set module_groups
      \<and> title r = Some (module_code r @ '' '' @ assignment_code r)
      \<and> iso_date (deadline_date r)
      \<and> (case recommend_date r of None \<Rightarrow> True | Some s \<Rightarrow> iso_date s))"

text \<open>The shape \<open>YYYY-MM-DD\<close>: ten characters, digits but for the two dashes.\<close>

definition is_yyyy_mm_dd :: "string \<Rightarrow> bool" where
  "is_yyyy_mm_dd s =
     (length s = 10 \<and> s ! 4 = CHR ''-'' \<and> s ! 7 = CHR ''-''
      \<and> list_all (cls CHR ''0'' CHR ''9'') (take 4 s @ take 2 (drop 5 s) @ drop 8 s))"











definition is_dd_mm_yyyy :: "string \<Rightarrow> bool" where
  "is_dd_mm_yyyy s =
     (length s = 10 \<and> s ! 2 = CHR ''/'' \<and> s ! 5 = CHR ''/''
      \<and> list_all (\<lambda>c. c \<in> set ''0123456789'') (take 2 s @ take 2 (drop 3 s) @ drop 6 s))"


section \<open>Module-group classification\<close>

lemma find_group_loop_find:
  "find_group_loop keys m = List.find (\<lambda>k. startswith (upper (strip m)) k) keys"
  by (induction keys) simp_all

lemma module_files_keys: "map fst (module_files yr mon) = module_groups"
  by (simp add: module_files_def module_groups_def)

lemma startswith_iff: "startswith s p \<longleftrightarrow> (\<exists>t. s = p @ t)"
proof
  assume "startswith s p"
  then have "s = p @ drop (length p) s"
    by (metis append_take_drop_id startswith_def)
  then show "\<exists>t. s = p @ t" ..
next
  assume "\<exists>t. s = p @ t"
  then show "startswith s p" by (auto simp: startswith_def)
qed

lemma parse_row_unclassifiable:
  "find_group m = None \<Longrightarrow> parse_row (m # rest) = None"
  by (simp add: parse_row_def Let_def)

lemma static_row_unclassifiable:
  "find_group_loop keys m = None \<Longrightarrow> static_row keys cals (m # rest) = cals"
  by (simp add: static_row_def Let_def split: option.splits)

lemma parse_row_group:
  "find_group m = Some g \<Longrightarrow> parse_row (m # rest) = Some v \<Longrightarrow>
   v_module_group v = g \<and> v_module_code v = strip m"
  by (auto simp: parse_row_def Let_def split: if_splits option.splits)

lemma static_row_classifiable:
  assumes "find_group_loop keys m = Some g" and "3 \<le> length rest"
    and "parse_date (rest ! 2) = Some start"
  shows "static_row keys cals (m # rest) =
     map (\<lambda>(k, cal).
            if k = g
            then (k, cal\<lparr>events := events cal @
                   [\<lparr>ev_name = m @ '' '' @ rest ! 0 @ '' deadline'',
                     ev_begin = start, ev_end = start,
                     ev_description = None, ev_categories = [], ev_uid = None\<rparr>]\<rparr>)
            else (k, cal)) cals"
proof -
  have n: "(m # rest) ! 3 = rest ! 2" "(m # rest) ! 1 = rest ! 0" "(m # rest) ! 0 = m"
    by (simp_all add: nth_Cons')
  from assms show ?thesis
    by (auto simp: static_row_def Let_def add_event_def n simp del: nth_Cons_numeral)
qed

lemma natural_key_new_row: "natural_key (new_row i v) = values_key v"
  by (simp add: natural_key_def new_row_def values_key_def)

lemma deadlines_insert_or_replace:
  "deadlines (insert_or_replace db v) =
     filter (\<lambda>x. natural_key x \<noteq> values_key v) (deadlines db) @ [new_row (next_id db) v]"
  by (simp add: insert_or_replace_def Let_def natural_key_new_row)

lemma find_group_examples:
  "find_group ([CHR 0xA0, CHR 0x09] @ ''cm1a'' @ [CHR 0x85, CHR '' '']) = Some ''CM1''"
  "find_group ''Cs2-x'' = Some ''CS2''"
  "find_group ''spa'' = Some ''SP''"
  "find_group ''XCM1'' = None"
  "find_group ''CM'' = None"
  "find_group ''C M1'' = None"
  by code_simp+

text \<open>
  C1. The ten groups are tried in the order CM1, CM2, CS1, CS2, CB, CP1, CP2, CP3, SP, SA,
  and a module code is given the first of them that is a prefix of its trimmed,
  upper-cased form; the code is unclassifiable exactly when none of the ten is a prefix.
  A row with an unclassifiable code changes neither the store (ingestion) nor any
  calendar (static generator). A row with a classifiable code that ingestion stores is
  stored under that group, with the trimmed code; one that the static generator takes
  adds its event to the calendar of that group and to no other.
\<close>

theorem module_group_classification:
  "module_groups = [''CM1'', ''CM2'', ''CS1'', ''CS2'', ''CB'', ''CP1'', ''CP2'', ''CP3'', ''SP'', ''SA'']
   \<and> (find_group m = Some g \<longleftrightarrow>
      (\<exists>i < length module_groups.
          module_groups ! i = g \<and> (\<exists>t. upper (strip m) = g @ t)
          \<and> (\<forall>j < i. \<not> (\<exists>t. upper (strip m) = module_groups ! j @ t))))
   \<and> (find_group m = None \<longleftrightarrow>
        (\<forall>k \<in> set module_groups. \<not> (\<exists>t. upper (strip m) = k @ t)))
   \<and> (find_group m = None \<longrightarrow>
        import_row db (m # rest) = db
        \<and> static_row (map fst (module_files yr mon)) cals (m # rest) = cals)
   \<and> (find_group m = Some g \<longrightarrow>
        import_row db (m # rest) = db
        \<or> (\<exists>r. deadlines (import_row db (m # rest)) =
                  filter (\<lambda>x. natural_key x \<noteq> natural_key r) (deadlines db) @ [r]
              \<and> module_group r = g \<and> module_code r = strip m))
   \<and> (find_group m = Some g \<and> 3 \<le> length rest \<and> parse_date (rest ! 2) = Some start \<longrightarrow>
        static_row (map fst (module_files yr mon)) cals (m # rest) =
          map (\<lambda>(k, cal).
                 if k = g
                 then (k, cal\<lparr>events := events cal @
                        [\<lparr>ev_name = m @ '' '' @ rest ! 0 @ '' deadline'',
                          ev_begin = start, ev_end = start,
                          ev_description = None, ev_categories = [], ev_uid = None\<rparr>]\<rparr>)
                 else (k, cal)) cals)
   \<and> find_group ([CHR 0xA0, CHR 0x09] @ ''cm1a'' @ [CHR 0x85, CHR '' '']) = Some ''CM1''
   \<and> find_group ''Cs2-x'' = Some ''CS2''
   \<and> find_group ''XCM1'' = None \<and> find_group ''CM'' = None"
proof (intro conjI impI)
  show "module_groups = [''CM1'', ''CM2'', ''CS1'', ''CS2'', ''CB'', ''CP1'', ''CP2'', ''CP3'', ''SP'', ''SA'']"
    by (simp add: module_groups_def)
  show "find_group m = Some g \<longleftrightarrow>
      (\<exists>i < length module_groups.
          module_groups ! i = g \<and> (\<exists>t. upper (strip m) = g @ t)
          \<and> (\<forall>j < i. \<not> (\<exists>t. upper (strip m) = module_groups ! j @ t)))"
    unfolding find_group_def find_group_loop_find find_Some_iff startswith_iff by blast
  show "find_group m = None \<longleftrightarrow>
        (\<forall>k \<in> set module_groups. \<not> (\<exists>t. upper (strip m) = k @ t))"
    unfolding find_group_def find_group_loop_find find_None_iff startswith_iff by blast
  show "find_group ([CHR 0xA0, CHR 0x09] @ ''cm1a'' @ [CHR 0x85, CHR '' '']) = Some ''CM1''"
    "find_group ''Cs2-x'' = Some ''CS2''" "find_group ''XCM1'' = None" "find_group ''CM'' = None"
    by (rule find_group_examples)+
next
  assume none: "find_group m = None"
  then show "import_row db (m # rest) = db"
    by (simp add: import_row_def parse_row_unclassifiable)
  from none have "find_group_loop (map fst (module_files yr mon)) m = None"
    by (simp add: find_group_def module_files_keys)
  then show "static_row (map fst (module_files yr mon)) cals (m # rest) = cals"
    by (rule static_row_unclassifiable)
next
  assume some: "find_group m = Some g"
  show "import_row db (m # rest) = db
        \<or> (\<exists>r. deadlines (import_row db (m # rest)) =
                  filter (\<lambda>x. natural_key x \<noteq> natural_key r) (deadlines db) @ [r]
              \<and> module_group r = g \<and> module_code r = strip m)"
  proof (cases "parse_row (m # rest)")
    case None
    then show ?thesis by (simp add: import_row_def)
  next
    case (Some v)
    from parse_row_group [OF some Some]
    have "deadlines (import_row db (m # rest)) =
            filter (\<lambda>x. natural_key x \<noteq> natural_key (new_row (next_id db) v)) (deadlines db)
              @ [new_row (next_id db) v]
          \<and> module_group (new_row (next_id db) v) = g
          \<and> module_code (new_row (next_id db) v) = strip m"
      by (simp add: import_row_def Some deadlines_insert_or_replace natural_key_new_row)
        (simp add: new_row_def)
    then show ?thesis by blast
  qed
next
  assume h: "find_group m = Some g \<and> 3 \<le> length rest \<and> parse_date (rest ! 2) = Some start"
  then have "find_group_loop (map fst (module_files yr mon)) m = Some g"
    by (simp add: find_group_def module_files_keys)
  with h show "static_row (map fst (module_files yr mon)) cals (m # rest) =
          map (\<lambda>(k, cal).
                 if k = g
                 then (k, cal\<lparr>events := events cal @
                        [\<lparr>ev_name = m @ '' '' @ rest ! 0 @ '' deadline'',
                          ev_begin = start, ev_end = start,
                          ev_description = None, ev_categories = [], ev_uid = None\<rparr>]\<rparr>)
                 else (k, cal)) cals"
    by (simp add: static_row_classifiable)
qed

lemma classification_examples:
  "find_group ''XY9'' = None"
  "find_group '' cm1a'' = Some ''CM1''"
  "parse_date ''01/12/2026'' = Some (Date 2026 12 1)"
  "parse_row ['' cm1a'', ''X1'', '''', ''01/12/2026''] =
     Some \<lparr>v_module_code = ''cm1a'', v_module_group = ''CM1'',
           v_assignment_code = ''X1'', v_title = Some ''cm1a X1'',
           v_recommend_date = None, v_deadline_date = ''2026-12-01''\<rparr>"
  by code_simp+

theorem module_group_classification_witness:
  "import_row init_database [''XY9'', ''X1'', '''', ''01/12/2026''] = init_database
   \<and> static_row (map fst (module_files 2026 ''September''))
        [(''CM1'', \<lparr>creator = None, extra = [], events = []\<rparr>),
         (''CB'', \<lparr>creator = None, extra = [], events = []\<rparr>)]
        [''XY9'', ''X1'', '''', ''01/12/2026''] =
        [(''CM1'', \<lparr>creator = None, extra = [], events = []\<rparr>),
         (''CB'', \<lparr>creator = None, extra = [], events = []\<rparr>)]
   \<and> static_row (map fst (module_files 2026 ''September''))
        [(''CM1'', \<lparr>creator = None, extra = [], events = []\<rparr>),
         (''CB'', \<lparr>creator = None, extra = [], events = []\<rparr>)]
        ['' cm1a'', ''X1'', '''', ''01/12/2026''] =
        [(''CM1'', \<lparr>creator = None, extra = [],
                   events = [\<lparr>ev_name = '' cm1a X1 deadline'', ev_begin = Date 2026 12 1,
                              ev_end = Date 2026 12 1, ev_description = None,
                              ev_categories = [], ev_uid = None\<rparr>]\<rparr>),
         (''CB'', \<lparr>creator = None, extra = [], events = []\<rparr>)]
   \<and> (\<exists>r. deadlines (import_row init_database ['' cm1a'', ''X1'', '''', ''01/12/2026'']) = [r]
          \<and> module_group r = ''CM1'' \<and> module_code r = ''cm1a'')"
proof -
  note unknown = module_group_classification
    [where m = "''XY9''" and rest = "[''X1'', '''', ''01/12/2026'']" and db = init_database
       and yr = 2026 and mon = "''September''"
       and cals = "[(''CM1'', \<lparr>creator = None, extra = [], events = []\<rparr>),
                    (''CB'', \<lparr>creator = None, extra = [], events = []\<rparr>)]"]
  note known = module_group_classification
    [where m = "'' cm1a''" and g = "''CM1''" and rest = "[''X1'', '''', ''01/12/2026'']"
       and db = init_database and yr = 2026 and mon = "''September''"
       and start = "Date 2026 12 1"
       and cals = "[(''CM1'', \<lparr>creator = None, extra = [], events = []\<rparr>),
                    (''CB'', \<lparr>creator = None, extra = [], events = []\<rparr>)]"]
  from unknown classification_examples(1)
  have a: "import_row init_database [''XY9'', ''X1'', '''', ''01/12/2026''] = init_database"
    and b: "static_row (map fst (module_files 2026 ''September''))
        [(''CM1'', \<lparr>creator = None, extra = [], events = []\<rparr>),
         (''CB'', \<lparr>creator = None, extra = [], events = []\<rparr>)]
        [''XY9'', ''X1'', '''', ''01/12/2026''] =
        [(''CM1'', \<lparr>creator = None, extra = [], events = []\<rparr>),
         (''CB'', \<lparr>creator = None, extra = [], events = []\<rparr>)]"
    by blast+
  have "3 \<le> length [''X1'', '''', ''01/12/2026'']"
    and "parse_date ([''X1'', '''', ''01/12/2026''] ! 2) = Some (Date 2026 12 1)"
    by (simp_all add: classification_examples)
  with known classification_examples(2)
  have "static_row (map fst (module_files 2026 ''September''))
        [(''CM1'', \<lparr>creator = None, extra = [], events = []\<rparr>),
         (''CB'', \<lparr>creator = None, extra = [], events = []\<rparr>)]
        ['' cm1a'', ''X1'', '''', ''01/12/2026''] =
        map (\<lambda>(k, cal).
                 if k = ''CM1''
                 then (k, cal\<lparr>events := events cal @
                        [\<lparr>ev_name = '' cm1a'' @ '' '' @ [''X1'', '''', ''01/12/2026''] ! 0 @ '' deadline'',
                          ev_begin = Date 2026 12 1, ev_end = Date 2026 12 1,
                          ev_description = None, ev_categories = [], ev_uid = None\<rparr>]\<rparr>)
                 else (k, cal))
          [(''CM1'', \<lparr>creator = None, extra = [], events = []\<rparr>),
           (''CB'', \<lparr>creator = None, extra = [], events = []\<rparr>)]"
    by blast
  then have c: "static_row (map fst (module_files 2026 ''September''))
        [(''CM1'', \<lparr>creator = None, extra = [], events = []\<rparr>),
         (''CB'', \<lparr>creator = None, extra = [], events = []\<rparr>)]
        ['' cm1a'', ''X1'', '''', ''01/12/2026''] =
        [(''CM1'', \<lparr>creator = None, extra = [],
                   events = [\<lparr>ev_name = '' cm1a X1 deadline'', ev_begin = Date 2026 12 1,
                              ev_end = Date 2026 12 1, ev_description = None,
                              ev_categories = [], ev_uid = None\<rparr>]\<rparr>),
         (''CB'', \<lparr>creator = None, extra = [], events = []\<rparr>)]"
    by simp
  have stored: "deadlines (import_row init_database ['' cm1a'', ''X1'', '''', ''01/12/2026''])
      \<noteq> deadlines init_database"
    by (simp add: import_row_def classification_examples deadlines_insert_or_replace
        init_database_def)
  with known classification_examples(2)
  have "\<exists>r. deadlines (import_row init_database ['' cm1a'', ''X1'', '''', ''01/12/2026'']) =
            filter (\<lambda>x. natural_key x \<noteq> natural_key r) (deadlines init_database) @ [r]
          \<and> module_group r = ''CM1'' \<and> module_code r = strip '' cm1a''"
    by (metis (no_types, lifting))
  moreover have "strip '' cm1a'' = ''cm1a''" by code_simp
  ultimately have d: "\<exists>r. deadlines (import_row init_database ['' cm1a'', ''X1'', '''', ''01/12/2026'']) = [r]
          \<and> module_group r = ''CM1'' \<and> module_code r = ''cm1a''"
    by (simp add: init_database_def)
  from a b c d show ?thesis by blast
qed


section \<open>The command line: combined flags and validation\<close>

text \<open>
  C8. With both \<open>--to-database\<close> and \<open>--start-server\<close> and an existing input file, the tool
  should import the file and then start the server. The run below shows what \<open>main\<close>
  does instead: the first test of \<open>start_server\<close> starts the server and returns, so
  nothing is imported, and the branch after the import that starts the server is
  never reached.
\<close>

theorem main_both_flags_only_starts_server:
  "main (\<lambda>p. True)
     \<lparr>input_path = Some ''deadlines.tsv'', year = None, month = None,
      to_database = True, start_server = True\<rparr> = ([StartServer], 0)"
  by (simp add: main_def)

lemma valid_month_nonempty: "m \<in> set valid_months \<Longrightarrow> m \<noteq> []"
  by (auto simp: valid_months_def)

text \<open>
  C9, as stated, fails: with \<open>--to-database\<close> the year is never looked at, and a year of
  1899 ends in an import and exit status 0.
\<close>

theorem main_to_database_skips_validation:
  "main (\<lambda>p. True)
     \<lparr>input_path = Some ''deadlines.tsv'', year = Some 1899, month = None,
      to_database = True, start_server = False\<rparr> = ([ImportToDatabase ''deadlines.tsv''], 0)"
  by (simp add: main_def)

text \<open>
  C9, amended. For an invocation without \<open>--start-server\<close> and without \<open>--to-database\<close>,
  on an existing input path: a non-zero \<open>--year\<close> outside 1900..3000 prints the year error
  and exits with status 1; a non-empty \<open>--month\<close> that is none of the twelve month names
  prints one error line and exits with status 1; in both cases nothing else happens, so
  no file is written. With the year absent or in range and the month absent or one of
  the twelve names, the tool generates the static files for that year and month
  (defaults 2026 and September) and exits with status 0.
\<close>

theorem main_static_validation:
  assumes "\<not> start_server a" and "\<not> to_database a"
    and "input_path a = Some p" and "p \<noteq> []" and "path_exists p"
  shows "(year a = Some y \<and> y \<noteq> 0 \<and> (y < 1900 \<or> 3000 < y) \<longrightarrow>
            main path_exists a = ([Print ''Error: Year must be between 1900 and 3000''], 1))
       \<and> (month a = Some m \<and> m \<noteq> [] \<and> m \<notin> set valid_months \<longrightarrow>
            (\<exists>msg. main path_exists a = ([Print msg], 1)))
       \<and> ((year a = None \<or> (\<exists>y'. year a = Some y' \<and> 1900 \<le> y' \<and> y' \<le> 3000))
            \<and> (month a = None \<or> (\<exists>m'. month a = Some m' \<and> m' \<in> set valid_months)) \<longrightarrow>
            main path_exists a =
              ([GenerateStaticFiles p (case year a of None \<Rightarrow> 2026 | Some y' \<Rightarrow> y')
                  (case month a of None \<Rightarrow> ''September'' | Some m' \<Rightarrow> m')], 0))"
proof (intro conjI impI)
  assume "year a = Some y \<and> y \<noteq> 0 \<and> (y < 1900 \<or> 3000 < y)"
  with assms show "main path_exists a = ([Print ''Error: Year must be between 1900 and 3000''], 1)"
    by (auto simp: main_def)
next
  assume "month a = Some m \<and> m \<noteq> [] \<and> m \<notin> set valid_months"
  with assms show "\<exists>msg. main path_exists a = ([Print msg], 1)"
    by (simp add: main_def Let_def split: option.splits)
next
  assume ok: "(year a = None \<or> (\<exists>y'. year a = Some y' \<and> 1900 \<le> y' \<and> y' \<le> 3000))
            \<and> (month a = None \<or> (\<exists>m'. month a = Some m' \<and> m' \<in> set valid_months))"
  have sept: "''September'' \<in> set valid_months" by (simp add: valid_months_def)
  from ok assms sept show "main path_exists a =
              ([GenerateStaticFiles p (case year a of None \<Rightarrow> 2026 | Some y' \<Rightarrow> y')
                  (case month a of None \<Rightarrow> ''September'' | Some m' \<Rightarrow> m')], 0)"
    by (auto simp: main_def Let_def dest: valid_month_nonempty split: if_splits)
qed

theorem main_static_validation_witness:
  "main (\<lambda>p. p = ''deadlines.tsv'')
     \<lparr>input_path = Some ''deadlines.tsv'', year = Some 1899, month = None,
      to_database = False, start_server = False\<rparr>
     = ([Print ''Error: Year must be between 1900 and 3000''], 1)
   \<and> (\<exists>msg. main (\<lambda>p. p = ''deadlines.tsv'')
     \<lparr>input_path = Some ''deadlines.tsv'', year = Some 2026, month = Some ''Frobruary'',
      to_database = False, start_server = False\<rparr> = ([Print msg], 1))
   \<and> main (\<lambda>p. p = ''deadlines.tsv'')
     \<lparr>input_path = Some ''deadlines.tsv'', year = Some 2026, month = Some ''September'',
      to_database = False, start_server = False\<rparr>
     = ([GenerateStaticFiles ''deadlines.tsv'' 2026 ''September''], 0)"
proof -
  have bad: "''Frobruary'' \<notin> set valid_months" and good: "''September'' \<in> set valid_months"
    by (simp_all add: valid_months_def)
  show ?thesis
    using main_static_validation
      [of "\<lparr>input_path = Some ''deadlines.tsv'', year = Some 1899, month = None,
            to_database = False, start_server = False\<rparr>"
          "''deadlines.tsv''" "\<lambda>p. p = ''deadlines.tsv''" 1899 "''x''"]
      main_static_validation
      [of "\<lparr>input_path = Some ''deadlines.tsv'', year = Some 2026, month = Some ''Frobruary'',
            to_database = False, start_server = False\<rparr>"
          "''deadlines.tsv''" "\<lambda>p. p = ''deadlines.tsv''" 2026 "''Frobruary''"]
      main_static_validation
      [of "\<lparr>input_path = Some ''deadlines.tsv'', year = Some 2026, month = Some ''September'',
            to_database = False, start_server = False\<rparr>"
          "''deadlines.tsv''" "\<lambda>p. p = ''deadlines.tsv''" 2026 "''September''"]
      bad good
    by simp
qed


section \<open>Ingestion of one row\<close>






text \<open>
  \<open>strptime\<close> takes a day and a month of one or two digits and a year of four, and
  rejects a day that the month does not have.
\<close>

lemma strptime_dmy_examples:
  "strptime_dmy ''01/12/2026'' = Some (Date 2026 12 1)"
  "strptime_dmy ''1/2/2026'' = Some (Date 2026 2 1)"
  "strptime_dmy ''31/02/2026'' = None"
  "strptime_dmy ''29/02/2024'' = Some (Date 2024 2 29)"
  "strptime_dmy ''01/12/26'' = None"
  "strptime_dmy ''2026-12-01'' = None"
  by code_simp+



lemma parse_row_valid:
  "parse_row [''CM1A'', ''X1'', '''', ''01/12/2026''] =
     Some \<lparr>v_module_code = ''CM1A'', v_module_group = ''CM1'',
           v_assignment_code = ''X1'', v_title = Some ''CM1A X1'',
           v_recommend_date = None, v_deadline_date = ''2026-12-01''\<rparr>"
  by code_simp


section \<open>Uniqueness of the natural key\<close>











section \<open>Ingesting the same file again\<close>

lemma import_single_row:
  "parse_row row = Some v \<Longrightarrow>
   import_from_tsv db [row] =
     \<lparr>deadlines = [new_row (sqlite_sequence db + 1) v],
      sqlite_sequence = sqlite_sequence db + 1\<rparr>"
  by (simp add: import_from_tsv_def import_row_def insert_or_replace_def Let_def next_id_def
      new_row_def)











section \<open>Stored dates read back\<close>

lemma of_char_digit_char: "k < 10 \<Longrightarrow> (of_char (digit_char k) :: nat) = 48 + k"
  by (simp add: digit_char_def)

lemma of_char_literals:
  "(of_char CHR ''0'' :: nat) = 48" "(of_char CHR ''1'' :: nat) = 49"
  "(of_char CHR ''2'' :: nat) = 50" "(of_char CHR ''9'' :: nat) = 57"
  "(of_char CHR ''-'' :: nat) = 45"
  by simp_all

lemma cls_digit_char: "k < 10 \<Longrightarrow> cls CHR ''0'' CHR ''9'' (digit_char k)"
  by (simp add: cls_def of_char_digit_char)

lemma digit_val_digit_char: "k < 10 \<Longrightarrow> digit_val (digit_char k) = k"
  by (simp add: digit_val_def of_char_digit_char)

lemma digit_char_not_dash: "k < 10 \<Longrightarrow> digit_char k \<noteq> CHR ''-''"
proof
  assume k: "k < 10" and eq: "digit_char k = CHR ''-''"
  from eq have "(of_char (digit_char k) :: nat) = of_char CHR ''-''" by simp
  with k show False by (simp add: of_char_digit_char)
qed

lemma split_at_append:
  "sep \<notin> set xs \<Longrightarrow> split_at sep (xs @ sep # ys) = Some (xs, ys)"
  by (induction xs) (auto simp: split_at_def)

lemma dash_not_in_pad4: "CHR ''-'' \<notin> set (pad4 y)"
  using digit_char_not_dash [of "y div 1000 mod 10"] digit_char_not_dash [of "y div 100 mod 10"]
    digit_char_not_dash [of "y div 10 mod 10"] digit_char_not_dash [of "y mod 10"]
  by (auto simp: pad4_def)

lemma dash_not_in_pad2: "CHR ''-'' \<notin> set (pad2 y)"
  using digit_char_not_dash [of "y div 10 mod 10"] digit_char_not_dash [of "y mod 10"]
  by (auto simp: pad2_def)

lemma days_in_month_le: "days_in_month y m \<le> 31"
  by (simp add: days_in_month_def)

lemma decimal_digits:
  fixes y :: nat
  assumes "y \<le> 9999"
  shows "1000 * (y div 1000 mod 10) + 100 * (y div 100 mod 10) + 10 * (y div 10 mod 10)
           + y mod 10 = y"
proof -
  define a where "a = y div 10"
  define b where "b = a div 10"
  define c where "c = b div 10"
  have y: "y = 10 * a + y mod 10" unfolding a_def by simp
  have a: "a = 10 * b + a mod 10" unfolding b_def by simp
  have b: "b = 10 * c + b mod 10" unfolding c_def by simp
  have "y div 100 = y div (10 * 10)" by simp
  also have "\<dots> = b" unfolding b_def a_def by (rule div_mult2_eq)
  finally have h: "y div 100 = b" .
  have "y div 1000 = y div (100 * 10)" by simp
  also have "\<dots> = y div 100 div 10" by (rule div_mult2_eq)
  finally have t: "y div 1000 = c" unfolding h c_def .
  from assms y a b have "c < 10" by linarith
  then have cm: "c mod 10 = c" by simp
  have "1000 * c + 100 * (b mod 10) + 10 * (a mod 10) + y mod 10 = y"
    using y a b by linarith
  then show ?thesis
    unfolding t h cm a_def [symmetric] .
qed

lemma re_Y_pad4: "y \<le> 9999 \<Longrightarrow> re_Y (pad4 y) = Some y"
proof -
  assume y: "y \<le> 9999"
  have c: "cls CHR ''0'' CHR ''9'' (digit_char (y div 1000 mod 10))"
      "cls CHR ''0'' CHR ''9'' (digit_char (y div 100 mod 10))"
      "cls CHR ''0'' CHR ''9'' (digit_char (y div 10 mod 10))"
      "cls CHR ''0'' CHR ''9'' (digit_char (y mod 10))"
    by (rule cls_digit_char, simp)+
  have v: "digit_val (digit_char (y div 1000 mod 10)) = y div 1000 mod 10"
      "digit_val (digit_char (y div 100 mod 10)) = y div 100 mod 10"
      "digit_val (digit_char (y div 10 mod 10)) = y div 10 mod 10"
      "digit_val (digit_char (y mod 10)) = y mod 10"
    by (rule digit_val_digit_char, simp)+
  show ?thesis
    unfolding pad4_def re_Y.simps using c v decimal_digits [OF y] by simp
qed

lemma re_m_pad2_all: "\<forall>m \<in> set [1..<13]. re_m (pad2 m) = Some m"
  by code_simp

lemma re_d_pad2_all: "\<forall>d \<in> set [1..<32]. re_d (pad2 d) = Some d"
  by code_simp

lemma re_m_pad2: "1 \<le> m \<Longrightarrow> m \<le> 12 \<Longrightarrow> re_m (pad2 m) = Some m"
  using re_m_pad2_all by simp

lemma re_d_pad2: "1 \<le> d \<Longrightarrow> d \<le> 31 \<Longrightarrow> re_d (pad2 d) = Some d"
  using re_d_pad2_all by simp

lemma strptime_ymd_isoformat:
  assumes "make_date y m d = Some dt"
  shows "strptime_ymd (isoformat dt) = Some dt"
proof -
  from assms have dt: "dt = Date y m d" and y: "y \<le> 9999" and m: "1 \<le> m" "m \<le> 12"
    and d: "1 \<le> d" "d \<le> days_in_month y m"
    by (auto simp: make_date_def split: if_splits)
  from d days_in_month_le [of y m] have d31: "d \<le> 31" by simp
  have iso: "isoformat dt = pad4 y @ CHR ''-'' # (pad2 m @ CHR ''-'' # pad2 d)"
    by (simp add: isoformat_def dt)
  show ?thesis
    unfolding strptime_ymd_def iso
    by (simp add: split_at_append dash_not_in_pad4 dash_not_in_pad2 re_Y_pad4 [OF y]
        re_m_pad2 [OF m] re_d_pad2 [OF d(1) d31] assms)
qed

lemma strptime_dmy_valid:
  "strptime_dmy s = Some dt \<Longrightarrow> make_date (year_of dt) (month_of dt) (day_of dt) = Some dt"
  by (auto simp: strptime_dmy_def make_date_def split: option.splits if_splits)


section \<open>Date validation during ingestion\<close>


















lemma cls_sub:
  "cls CHR ''1'' CHR ''9'' c \<Longrightarrow> cls CHR ''0'' CHR ''9'' c"
  "cls CHR ''1'' CHR ''2'' c \<Longrightarrow> cls CHR ''0'' CHR ''9'' c"
  "cls CHR ''0'' CHR ''1'' c \<Longrightarrow> cls CHR ''0'' CHR ''9'' c"
  "cls CHR ''0'' CHR ''2'' c \<Longrightarrow> cls CHR ''0'' CHR ''9'' c"
  by (simp_all add: cls_def)




















text \<open>
  C2, as stated, fails: a deadline need not be written strictly as \<open>DD/MM/YYYY\<close>. The row
  with the deadline text \<open>1/2/2026\<close>, which has a day and a month of one digit, is stored,
  with the deadline \<open>2026-02-01\<close>.
\<close>

theorem unpadded_date_is_stored:
  "deadlines (import_row init_database [''CM1A'', ''X1'', '''', ''1/2/2026'']) =
     [\<lparr>row_id = 1, module_code = ''CM1A'', module_group = ''CM1'',
       assignment_code = ''X1'', title = Some ''CM1A X1'', recommend_date = None,
       deadline_date = ''2026-02-01'', academic_year = ''2026'', is_active = True\<rparr>]
   \<and> \<not> is_dd_mm_yyyy ''1/2/2026''
   \<and> is_dd_mm_yyyy ''01/02/2026''"
proof -
  have "parse_row [''CM1A'', ''X1'', '''', ''1/2/2026''] =
     Some \<lparr>v_module_code = ''CM1A'', v_module_group = ''CM1'',
           v_assignment_code = ''X1'', v_title = Some ''CM1A X1'',
           v_recommend_date = None, v_deadline_date = ''2026-02-01''\<rparr>"
    by code_simp
  moreover have "\<not> is_dd_mm_yyyy ''1/2/2026''" "is_dd_mm_yyyy ''01/02/2026''"
    by code_simp+
  ultimately show ?thesis
    by (simp add: import_row_def insert_or_replace_def Let_def next_id_def new_row_def
        init_database_def)
qed






section \<open>What an ingested store holds\<close>

lemma iso_date_strptime_dmy: "strptime_dmy s = Some dt \<Longrightarrow> iso_date (isoformat dt)"
  unfolding iso_date_def using strptime_dmy_valid by blast

lemma find_group_in_groups: "find_group m = Some g \<Longrightarrow> g \<in> set module_groups"
  unfolding find_group_def find_group_loop_find find_Some_iff by auto

lemma well_formed_new_row:
  assumes "parse_row row = Some v"
  shows "well_formed_row (new_row i v)"
proof -
  from assms obtain g dl where g: "find_group (row ! 0) = Some g"
    and dl: "strptime_dmy (strip (row ! 3)) = Some dl"
    and v1: "v_module_group v = g" "v_deadline_date v = isoformat dl"
      "v_title v = Some (v_module_code v @ '' '' @ v_assignment_code v)"
    and rec: "v_recommend_date v = None
        \<or> (\<exists>rd. strptime_dmy (strip (row ! 2)) = Some rd \<and> v_recommend_date v = Some (isoformat rd))"
    by (auto simp: parse_row_def Let_def split: if_splits option.splits)
  from rec have "case v_recommend_date v of None \<Rightarrow> True | Some s \<Rightarrow> iso_date s"
    by (auto dest: iso_date_strptime_dmy)
  with g dl v1 show ?thesis
    by (simp add: well_formed_row_def new_row_def find_group_in_groups iso_date_strptime_dmy)
qed

lemma well_formed_import_row:
  "list_all well_formed_row (deadlines db) \<Longrightarrow>
   list_all well_formed_row (deadlines (import_row db row))"
  by (auto simp: import_row_def deadlines_insert_or_replace well_formed_new_row list_all_iff
      split: option.splits)

lemma well_formed_import_rows:
  "list_all well_formed_row (deadlines db) \<Longrightarrow>
   list_all well_formed_row (deadlines (import_rows db tsv))"
  by (induction tsv arbitrary: db) (simp_all add: well_formed_import_row)

lemma well_formed_import_from_tsv:
  "list_all well_formed_row (deadlines (import_from_tsv db tsv))"
  unfolding import_from_tsv_def by (rule well_formed_import_rows) simp

lemma is_yyyy_mm_dd_iso: "iso_date s \<Longrightarrow> is_yyyy_mm_dd s"
  by (auto simp: iso_date_def is_yyyy_mm_dd_def isoformat_def pad4_def pad2_def cls_digit_char)

lemma upper_char_idem: "concat (map upper_char (upper_char c)) = upper_char c"
  by (auto simp: upper_char_def Let_def)

lemma upper_idem: "upper (upper s) = upper s"
  unfolding upper_def by (induction s) (simp_all add: upper_char_idem)




lemma select_all_groups_rows:
  "set (select_all_groups db) = select_columns ` {r \<in> set (deadlines db). is_active r}"
  by (auto simp: select_all_groups_def)

lemma select_group_rows:
  "set (select_group db g) =
     select_columns ` {r \<in> set (deadlines db). module_group r = g \<and> is_active r}"
  by (auto simp: select_group_def)

lemma get_deadlines_by_group_rows:
  "t \<in> set (get_deadlines_by_group db mg) \<Longrightarrow> \<exists>r \<in> set (deadlines db). t = select_columns r"
  by (auto simp: get_deadlines_by_group_def select_all_groups_rows select_group_rows
      split: option.splits if_splits)

lemma select_group_empty:
  "list_all (\<lambda>r. \<not> (is_active r \<and> module_group r = g)) (deadlines db) \<Longrightarrow>
   select_group db g = []"
proof -
  assume "list_all (\<lambda>r. \<not> (is_active r \<and> module_group r = g)) (deadlines db)"
  then have "filter (\<lambda>r. module_group r = g \<and> is_active r) (deadlines db) = []"
    by (auto simp: list_all_iff filter_empty_conv)
  then show ?thesis by (simp add: select_group_def)
qed

lemma format_deadline_row:
  "well_formed_row r \<Longrightarrow>
   format_deadline (select_columns r) =
     JObject [(''module_code'', JString (module_code r)),
              (''assignment_code'', JString (assignment_code r)),
              (''title'', JString (module_code r @ '' '' @ assignment_code r)),
              (''deadline_date'', JString (deadline_date r)),
              (''recommend_date'',
                 (case recommend_date r of None \<Rightarrow> JNull | Some s \<Rightarrow> JString s))]"
  by (simp add: format_deadline_def select_columns_def json_opt_def well_formed_row_def)


section \<open>The JSON deadlines endpoint\<close>

lemma import_example:
  "import_from_tsv init_database [[''CM1A'', ''X1'', '''', ''01/12/2026'']] =
     \<lparr>deadlines =
        [\<lparr>row_id = 1, module_code = ''CM1A'', module_group = ''CM1'',
          assignment_code = ''X1'', title = Some ''CM1A X1'', recommend_date = None,
          deadline_date = ''2026-12-01'', academic_year = ''2026'', is_active = True\<rparr>],
      sqlite_sequence = 1\<rparr>"
  by (simp add: import_single_row [OF parse_row_valid] init_database_def new_row_def)

text \<open>
  C7, as stated, fails: the entry of a record without a recommended date has the key
  \<open>recommend_date\<close> with the value \<open>null\<close>; the key is not left out.
\<close>

theorem deadlines_entry_null_recommend_date:
  "serve_deadlines (import_from_tsv init_database [[''CM1A'', ''X1'', '''', ''01/12/2026'']])
     Map.empty =
   Inr \<lparr>status = 200,
        headers = [(''Content-Type'', ''application/json''),
                   (''Access-Control-Allow-Origin'', ''*'')],
        body = JsonBody (JObject [(''deadlines'', JArray
                 [JObject [(''module_code'', JString ''CM1A''),
                           (''assignment_code'', JString ''X1''),
                           (''title'', JString ''CM1A X1''),
                           (''deadline_date'', JString ''2026-12-01''),
                           (''recommend_date'', JNull)]])])\<rparr>"
  by (simp add: import_example serve_deadlines_def get_deadlines_by_group_def
      select_all_groups_def select_columns_def format_deadline_def json_opt_def)

text \<open>
  C7, amended. Over an ingested store every request to \<open>/api/deadlines\<close> is answered with
  status 200 and a list of entries, each the entry of a stored record: it has the five
  keys module_code, assignment_code, title, deadline_date and recommend_date, the
  deadline has the shape \<open>YYYY-MM-DD\<close>, and recommend_date is \<open>null\<close> when the record has no
  recommended date.
\<close>

theorem deadlines_entry_shape:
  assumes "query_params ''group'' \<noteq> Some []"
  shows "\<exists>resp entries.
           serve_deadlines (import_from_tsv db tsv) query_params = Inr resp
         \<and> status resp = 200
         \<and> body resp = JsonBody (JObject [(''deadlines'', JArray entries)])
         \<and> (\<forall>e \<in> set entries. \<exists>r \<in> set (deadlines (import_from_tsv db tsv)).
               e = JObject [(''module_code'', JString (module_code r)),
                            (''assignment_code'', JString (assignment_code r)),
                            (''title'', JString (module_code r @ '' '' @ assignment_code r)),
                            (''deadline_date'', JString (deadline_date r)),
                            (''recommend_date'',
                               (case recommend_date r of None \<Rightarrow> JNull | Some s \<Rightarrow> JString s))]
               \<and> is_yyyy_mm_dd (deadline_date r))"
proof -
  define D where "D = import_from_tsv db tsv"
  have wf: "\<And>r. r \<in> set (deadlines D) \<Longrightarrow> well_formed_row r"
    using well_formed_import_from_tsv [of db tsv] by (simp add: D_def list_all_iff)
  have entry: "\<exists>r \<in> set (deadlines D).
               format_deadline t = JObject [(''module_code'', JString (module_code r)),
                            (''assignment_code'', JString (assignment_code r)),
                            (''title'', JString (module_code r @ '' '' @ assignment_code r)),
                            (''deadline_date'', JString (deadline_date r)),
                            (''recommend_date'',
                               (case recommend_date r of None \<Rightarrow> JNull | Some s \<Rightarrow> JString s))]
               \<and> is_yyyy_mm_dd (deadline_date r)"
    if "t \<in> set (get_deadlines_by_group D mg)" for t mg
  proof -
    from that obtain r where r: "r \<in> set (deadlines D)" and t: "t = select_columns r"
      by (auto dest: get_deadlines_by_group_rows)
    from wf [OF r] have "is_yyyy_mm_dd (deadline_date r)"
      by (simp add: well_formed_row_def is_yyyy_mm_dd_iso)
    with r t format_deadline_row [OF wf [OF r]] show ?thesis by blast
  qed
  have "\<exists>mg. serve_deadlines D query_params =
      Inr \<lparr>status = 200,
           headers = [(''Content-Type'', ''application/json''),
                      (''Access-Control-Allow-Origin'', ''*'')],
           body = JsonBody (JObject [(''deadlines'',
                    JArray (map format_deadline (get_deadlines_by_group D mg)))])\<rparr>"
  proof (cases "query_params ''group''")
    case None
    then show ?thesis by (auto simp: serve_deadlines_def)
  next
    case (Some vs)
    with assms obtain v vs' where "vs = v # vs'" by (cases vs) auto
    with Some show ?thesis by (auto simp: serve_deadlines_def Let_def)
  qed
  then obtain mg where resp: "serve_deadlines D query_params =
      Inr \<lparr>status = 200,
           headers = [(''Content-Type'', ''application/json''),
                      (''Access-Control-Allow-Origin'', ''*'')],
           body = JsonBody (JObject [(''deadlines'',
                    JArray (map format_deadline (get_deadlines_by_group D mg)))])\<rparr>"
    by blast
  let ?entries = "map format_deadline (get_deadlines_by_group D mg)"
  let ?resp = "\<lparr>status = 200,
           headers = [(''Content-Type'', ''application/json''),
                      (''Access-Control-Allow-Origin'', ''*'')],
           body = JsonBody (JObject [(''deadlines'', JArray ?entries)])\<rparr>"
  have all: "\<forall>e \<in> set ?entries. \<exists>r \<in> set (deadlines D).
               e = JObject [(''module_code'', JString (module_code r)),
                            (''assignment_code'', JString (assignment_code r)),
                            (''title'', JString (module_code r @ '' '' @ assignment_code r)),
                            (''deadline_date'', JString (deadline_date r)),
                            (''recommend_date'',
                               (case recommend_date r of None \<Rightarrow> JNull | Some s \<Rightarrow> JString s))]
               \<and> is_yyyy_mm_dd (deadline_date r)"
  proof
    fix e
    assume "e \<in> set ?entries"
    then obtain t where "t \<in> set (get_deadlines_by_group D mg)" and "e = format_deadline t"
      by (auto simp del: format_deadline_def)
    with entry [of t mg] show "\<exists>r \<in> set (deadlines D).
               e = JObject [(''module_code'', JString (module_code r)),
                            (''assignment_code'', JString (assignment_code r)),
                            (''title'', JString (module_code r @ '' '' @ assignment_code r)),
                            (''deadline_date'', JString (deadline_date r)),
                            (''recommend_date'',
                               (case recommend_date r of None \<Rightarrow> JNull | Some s \<Rightarrow> JString s))]
               \<and> is_yyyy_mm_dd (deadline_date r)"
      by simp
  qed
  have "serve_deadlines D query_params = Inr ?resp \<and> status ?resp = 200
      \<and> body ?resp = JsonBody (JObject [(''deadlines'', JArray ?entries)])"
    using resp by simp
  with all show ?thesis unfolding D_def by blast
qed

theorem deadlines_entry_shape_witness:
  "\<exists>resp entries.
     serve_deadlines (import_from_tsv init_database [[''CM1A'', ''X1'', '''', ''01/12/2026'']])
       Map.empty = Inr resp
     \<and> status resp = 200
     \<and> body resp = JsonBody (JObject [(''deadlines'', JArray entries)])"
  using deadlines_entry_shape
    [of Map.empty init_database "[[''CM1A'', ''X1'', '''', ''01/12/2026'']]"]
  by auto


section \<open>The case of the group parameter\<close>






section \<open>Calendar feeds\<close>

lemma strptime_ymd_iso_date: "iso_date s \<Longrightarrow> \<exists>d. strptime_ymd s = Some d"
  unfolding iso_date_def using strptime_ymd_isoformat by blast

lemma deadline_event_row:
  assumes "strptime_ymd (deadline_date r) = Some d"
  shows "deadline_event None (select_columns r) =
     Inr \<lparr>ev_name = module_code r @ '' '' @ assignment_code r @ '' deadline'',
          ev_begin = d, ev_end = d,
          ev_description =
            Some (''Assignment deadline for '' @ module_code r @ '' '' @ assignment_code r),
          ev_categories = [''Assignment''],
          ev_uid = Some (module_code r @ ''-'' @ assignment_code r @ ''-'' @ deadline_date r
                         @ ''@deadlines-calendar'')\<rparr>"
  using assms by (simp add: deadline_event_def select_columns_def)

lemma deadline_events_Inr:
  "list_all (\<lambda>t. \<exists>e. deadline_event g t = Inr e) ts \<Longrightarrow>
   \<exists>evs. deadline_events g ts = Inr evs \<and> map Inr evs = map (deadline_event g) ts"
proof (induction ts)
  case Nil
  then show ?case by simp
next
  case (Cons t ts)
  then obtain e evs where "deadline_event g t = Inr e"
    and "deadline_events g ts = Inr evs" and "map Inr evs = map (deadline_event g) ts"
    by auto
  then show ?case by simp
qed

lemma segment_examples:
  "last_segment ''/calendar/.ics'' = ''.ics''"
  "upper (str_remove ''.ics'' ''.ics'') = []"
  "last_segment ''/calendar/zz.ics'' = ''zz.ics''"
  "upper (str_remove ''.ics'' ''zz.ics'') = ''ZZ''"
  "last_segment ''/calendar/all.ics'' = ''all.ics''"
  "strptime_ymd ''2026-12-01'' = Some (Date 2026 12 1)"
  by code_simp+

text \<open>
  C5, as stated, fails: \<open>/calendar/.ics\<close> has the empty stem, which \<open>get_deadlines_by_group\<close>
  takes for "no group", so the feed lists the events of all groups although no record
  carries the empty group.
\<close>

theorem empty_stem_feed_lists_everything:
  "serve_calendar (import_from_tsv init_database [[''CM1A'', ''X1'', '''', ''01/12/2026'']])
     ''/calendar/.ics'' =
   Inr \<lparr>status = 200,
        headers = [(''Content-Type'', ''text/calendar; charset=utf-8''),
                   (''Content-Disposition'', ''attachment; filename='' @ [CHR 0x22] @ ''.ics'' @ [CHR 0x22]),
                   (''Cache-Control'', ''no-cache, must-revalidate''),
                   (''Expires'', ''Thu, 01 Jan 1970 00:00:00 GMT'')],
        body = IcsBody
          \<lparr>creator = Some '' Marking Deadlines April 2026'',
           extra = [(''X-WR-CALNAME'', '' Marking Deadlines April 2026''),
                    (''X-WR-CALDESC'', ''ActEd  Marking Deadlines April 2026''),
                    (''NAME'', '' Marking Deadlines April 2026'')],
           events = [\<lparr>ev_name = ''CM1A X1 deadline'', ev_begin = Date 2026 12 1,
                      ev_end = Date 2026 12 1,
                      ev_description = Some ''Assignment deadline for CM1A X1'',
                      ev_categories = [''Assignment''],
                      ev_uid = Some ''CM1A-X1-2026-12-01@deadlines-calendar''\<rparr>]\<rparr>\<rparr>"
  by (simp add: import_example serve_calendar_def Let_def segment_examples generate_calendar_def
      get_deadlines_by_group_def select_all_groups_def select_columns_def deadline_event_def)

text \<open>
  C5, amended. For a request \<open>/calendar/{name}.ics\<close> whose file name is not \<open>all.ics\<close> and
  whose upper-cased stem is not empty, the stem is the group filter, with no check
  that the group exists: when no active record carries that group the response has
  status 200 and a calendar with its three name lines and no events. Every path under
  \<open>/calendar/\<close> is routed to the calendar handler, never to "not found". Over an ingested
  store \<open>all.ics\<close> answers with status 200 and one event per stored record, of every
  group.
\<close>

theorem unknown_group_feed_empty:
  "(last_segment path \<noteq> ''all.ics''
      \<and> upper (str_remove ''.ics'' (last_segment path)) \<noteq> []
      \<and> list_all (\<lambda>r. \<not> (is_active r
             \<and> module_group r = upper (str_remove ''.ics'' (last_segment path)))) (deadlines db)
      \<longrightarrow> (\<exists>resp cal. serve_calendar db path = Inr resp \<and> status resp = 200
             \<and> body resp = IcsBody cal \<and> events cal = []
             \<and> map fst (extra cal) = [''X-WR-CALNAME'', ''X-WR-CALDESC'', ''NAME'']))
   \<and> (startswith path ''/calendar/'' \<longrightarrow> do_GET path = ServeCalendar)
   \<and> (last_segment path = ''all.ics''
      \<longrightarrow> (\<exists>resp cal. serve_calendar (import_from_tsv db tsv) path = Inr resp
             \<and> status resp = 200 \<and> body resp = IcsBody cal
             \<and> length (events cal) = length (deadlines (import_from_tsv db tsv))
             \<and> (\<forall>r \<in> set (deadlines (import_from_tsv db tsv)). \<exists>e \<in> set (events cal).
                   ev_name e = module_code r @ '' '' @ assignment_code r @ '' deadline''
                   \<and> strptime_ymd (deadline_date r) = Some (ev_begin e)
                   \<and> ev_end e = ev_begin e
                   \<and> ev_uid e = Some (module_code r @ ''-'' @ assignment_code r @ ''-''
                                        @ deadline_date r @ ''@deadlines-calendar''))))"
proof (intro conjI impI)
  define G where "G = upper (str_remove ''.ics'' (last_segment path))"
  assume h: "last_segment path \<noteq> ''all.ics''
      \<and> upper (str_remove ''.ics'' (last_segment path)) \<noteq> []
      \<and> list_all (\<lambda>r. \<not> (is_active r
             \<and> module_group r = upper (str_remove ''.ics'' (last_segment path)))) (deadlines db)"
  then have ne: "G \<noteq> []" and seg: "last_segment path \<noteq> ''all.ics''"
    and none: "list_all (\<lambda>r. \<not> (is_active r \<and> module_group r = G)) (deadlines db)"
    by (simp_all add: G_def)
  have up: "upper G = G" by (simp add: G_def upper_idem)
  from none have "select_group db G = []" by (rule select_group_empty)
  with ne up have "get_deadlines_by_group db (Some G) = []"
    by (simp add: get_deadlines_by_group_def)
  then show "\<exists>resp cal. serve_calendar db path = Inr resp \<and> status resp = 200
             \<and> body resp = IcsBody cal \<and> events cal = []
             \<and> map fst (extra cal) = [''X-WR-CALNAME'', ''X-WR-CALDESC'', ''NAME'']"
    using seg by (simp add: serve_calendar_def Let_def G_def [symmetric] generate_calendar_def)
next
  assume "startswith path ''/calendar/''"
  then show "do_GET path = ServeCalendar"
    by (auto simp: do_GET_def startswith_def)
next
  define D where "D = import_from_tsv db tsv"
  assume seg: "last_segment path = ''all.ics''"
  have wf: "\<And>r. r \<in> set (deadlines D) \<Longrightarrow> well_formed_row r"
    using well_formed_import_from_tsv [of db tsv] by (simp add: D_def list_all_iff)
  have act: "filter is_active (deadlines D) = deadlines D"
    using wf by (auto simp: well_formed_row_def)
  have parse: "\<exists>d. strptime_ymd (deadline_date r) = Some d" if "r \<in> set (deadlines D)" for r
    using wf [OF that] by (simp add: well_formed_row_def strptime_ymd_iso_date)
  have "list_all (\<lambda>t. \<exists>e. deadline_event None t = Inr e) (select_all_groups D)"
    using parse deadline_event_row
    by (fastforce simp: list_all_iff select_all_groups_rows)
  then obtain evs where evs: "deadline_events None (select_all_groups D) = Inr evs"
    and m: "map Inr evs = map (deadline_event None) (select_all_groups D)"
    using deadline_events_Inr by blast
  have "length (map (Inr :: event \<Rightarrow> py_error + event) evs) =
        length (map (deadline_event None) (select_all_groups D))"
    by (simp only: m)
  then have "length evs = length (select_all_groups D)"
    by (simp only: length_map)
  then have len: "length evs = length (deadlines D)"
    by (simp add: select_all_groups_def act)
  have each: "\<exists>e \<in> set evs.
                   ev_name e = module_code r @ '' '' @ assignment_code r @ '' deadline''
                   \<and> strptime_ymd (deadline_date r) = Some (ev_begin e)
                   \<and> ev_end e = ev_begin e
                   \<and> ev_uid e = Some (module_code r @ ''-'' @ assignment_code r @ ''-''
                                        @ deadline_date r @ ''@deadlines-calendar'')"
    if r: "r \<in> set (deadlines D)" for r
  proof -
    from parse [OF r] obtain d where d: "strptime_ymd (deadline_date r) = Some d" by blast
    let ?e = "\<lparr>ev_name = module_code r @ '' '' @ assignment_code r @ '' deadline'',
          ev_begin = d, ev_end = d,
          ev_description =
            Some (''Assignment deadline for '' @ module_code r @ '' '' @ assignment_code r),
          ev_categories = [''Assignment''],
          ev_uid = Some (module_code r @ ''-'' @ assignment_code r @ ''-'' @ deadline_date r
                         @ ''@deadlines-calendar'')\<rparr>"
    from r wf [OF r] have "select_columns r \<in> set (select_all_groups D)"
      by (auto simp: select_all_groups_rows well_formed_row_def)
    then have "deadline_event None (select_columns r)
        \<in> set (map (deadline_event None) (select_all_groups D))"
      by simp
    then have "(Inr ?e :: py_error + event) \<in> set (map Inr evs)"
      by (simp only: m deadline_event_row [OF d])
    then have "?e \<in> set evs" by auto
    with d show ?thesis by (intro bexI [of _ ?e]) simp_all
  qed
  let ?cal = "\<lparr>creator = Some ''All Assignment Deadlines April 2026'',
               extra = [(''X-WR-CALNAME'', ''All Assignment Deadlines April 2026''),
                        (''X-WR-CALDESC'', ''ActEd '' @ ''All Assignment Deadlines April 2026''),
                        (''NAME'', ''All Assignment Deadlines April 2026'')],
               events = evs\<rparr>"
  have "\<exists>resp. serve_calendar D path = Inr resp \<and> status resp = 200 \<and> body resp = IcsBody ?cal"
    using seg evs
    by (simp add: serve_calendar_def Let_def generate_calendar_def get_deadlines_by_group_def)
  then obtain resp where resp: "serve_calendar D path = Inr resp" "status resp = 200"
      "body resp = IcsBody ?cal"
    by blast
  have cal: "length (events ?cal) = length (deadlines D)"
    "\<forall>r \<in> set (deadlines D). \<exists>e \<in> set (events ?cal).
                   ev_name e = module_code r @ '' '' @ assignment_code r @ '' deadline''
                   \<and> strptime_ymd (deadline_date r) = Some (ev_begin e)
                   \<and> ev_end e = ev_begin e
                   \<and> ev_uid e = Some (module_code r @ ''-'' @ assignment_code r @ ''-''
                                        @ deadline_date r @ ''@deadlines-calendar'')"
    using len each by simp_all
  from resp cal show "\<exists>resp cal. serve_calendar (import_from_tsv db tsv) path = Inr resp
             \<and> status resp = 200 \<and> body resp = IcsBody cal
             \<and> length (events cal) = length (deadlines (import_from_tsv db tsv))
             \<and> (\<forall>r \<in> set (deadlines (import_from_tsv db tsv)). \<exists>e \<in> set (events cal).
                   ev_name e = module_code r @ '' '' @ assignment_code r @ '' deadline''
                   \<and> strptime_ymd (deadline_date r) = Some (ev_begin e)
                   \<and> ev_end e = ev_begin e
                   \<and> ev_uid e = Some (module_code r @ ''-'' @ assignment_code r @ ''-''
                                        @ deadline_date r @ ''@deadlines-calendar''))"
    unfolding D_def [symmetric] by blast
qed

theorem unknown_group_feed_empty_witness:
  "(\<exists>resp cal.
      serve_calendar (import_from_tsv init_database [[''CM1A'', ''X1'', '''', ''01/12/2026'']])
        ''/calendar/zz.ics'' = Inr resp
      \<and> status resp = 200 \<and> body resp = IcsBody cal \<and> events cal = [])
   \<and> do_GET ''/calendar/zz.ics'' = ServeCalendar"
proof -
  have seg: "last_segment ''/calendar/zz.ics'' \<noteq> ''all.ics''"
    and stem: "upper (str_remove ''.ics'' (last_segment ''/calendar/zz.ics'')) \<noteq> []"
    by (simp_all add: segment_examples)
  have rows: "list_all (\<lambda>r. \<not> (is_active r
             \<and> module_group r = upper (str_remove ''.ics'' (last_segment ''/calendar/zz.ics''))))
          (deadlines (import_from_tsv init_database [[''CM1A'', ''X1'', '''', ''01/12/2026'']]))"
    by (simp add: segment_examples import_example)
  have route: "startswith ''/calendar/zz.ics'' ''/calendar/''"
    by (simp add: startswith_def)
  from unknown_group_feed_empty
    [where path = "''/calendar/zz.ics''"
       and db = "import_from_tsv init_database [[''CM1A'', ''X1'', '''', ''01/12/2026'']]"
       and tsv = "[]"]
    seg stem rows route
  show ?thesis by blast
qed

end
